theory Spec2Isabelle
  imports Complex_Main
begin

section \<open>The reference simulators of pyquil (src/pyquil/reference_simulator.py)\<close>

text \<open>
  The development embeds the two simulator classes of the module, the wavefunction
  simulator and the density-matrix simulator, together with the validity check of a
  density matrix.

  Conventions of the embedding.
  \<^item> The values of a numpy array are a list of exact complex numbers (a vector) or a list
    of rows (a matrix). Rounding of IEEE-754 arithmetic is not part of the model: the
    arithmetic is that of the field of complex numbers. The two-dimensional arrays that
    the density-matrix simulator stores or receives also carry their element type
    (\<open>dtype\<close>), because an addition in place fails when the element type of the target
    cannot hold the sum.
  \<^item> A Python exception is a value \<open>Raise c msg\<close> of type \<open>error\<close>, where \<open>c\<close> is the
    exception class and \<open>msg\<close> the message of the source.
  \<^item> A method that mutates the simulator takes the simulator and gives back a pair: the
    outcome (\<open>Inl\<close> an exception, \<open>Inr\<close> the returned value) and the simulator after the
    call. An exception does not undo assignments made before it, so the simulator is
    returned in both cases. The source returns \<open>self\<close> for method chaining; the returned
    simulator stands for it.
  \<^item> Functions of numpy and of modules of pyquil other than this one are parameters of
    the definitions that call them, or are modelled from the specification where a
    comment says so.
\<close>

subsection \<open>Exceptions\<close>

datatype exception_class =
  ValueError | NotImplementedError | KeyError | OverflowError | IndexError | UFuncTypeError

datatype error = Raise exception_class string

fun error_class :: "error \<Rightarrow> exception_class" where
  "error_class (Raise c msg) = c"

fun error_message :: "error \<Rightarrow> string" where
  "error_message (Raise c msg) = msg"

subsection \<open>Arrays\<close>

type_synonym vector = "complex list"
type_synonym matrix = "complex list list"

text \<open>\<open>state_matrix.shape\<close> of a two-dimensional array.\<close>

definition shape :: "matrix \<Rightarrow> nat \<times> nat" where
  "shape m = (length m, (case m of [] \<Rightarrow> 0 | r # _ \<Rightarrow> length r))"

text \<open>A rectangular array of \<open>r\<close> rows and \<open>c\<close> columns.\<close>

definition has_shape :: "matrix \<Rightarrow> nat \<Rightarrow> nat \<Rightarrow> bool" where
  "has_shape m r c = (length m = r \<and> list_all (\<lambda>row. length row = c) m)"

text \<open>\<open>np.zeros((r, c), dtype=np.complex128)\<close> and \<open>np.zeros_like\<close>.\<close>

definition zeros :: "nat \<Rightarrow> nat \<Rightarrow> matrix" where
  "zeros r c = replicate r (replicate c 0)"

definition zeros_like :: "matrix \<Rightarrow> matrix" where
  "zeros_like m = map (map (\<lambda>x. 0)) m"

text \<open>The assignment \<open>m[i, j] = v\<close>, for an index inside the array.\<close>

definition set_entry :: "matrix \<Rightarrow> nat \<Rightarrow> nat \<Rightarrow> complex \<Rightarrow> matrix" where
  "set_entry m i j v = m[i := (m ! i)[j := v]]"

text \<open>\<open>m.transpose()\<close> and \<open>np.conjugate(m)\<close>.\<close>

definition transpose_m :: "matrix \<Rightarrow> matrix" where
  "transpose_m m = map (\<lambda>j. map (\<lambda>row. row ! j) m) [0..<snd (shape m)]"

definition conjugate :: "matrix \<Rightarrow> matrix" where
  "conjugate m = map (map cnj) m"

text \<open>\<open>np.trace(m)\<close>: the sum of the diagonal.\<close>

definition trace :: "matrix \<Rightarrow> complex" where
  "trace m = sum_list (map (\<lambda>i. m ! i ! i) [0..<min (fst (shape m)) (snd (shape m))])"

text \<open>
  The element types that matter to the simulators, ordered by kind: integers, reals,
  complex numbers. An operation on two arrays gives the higher of the two kinds
  (\<open>np.result_type\<close>); an addition in place casts the sum to the element type of the
  target under the rule \<open>same_kind\<close>, which allows a cast to the same or a higher kind
  only. An array of element type \<open>float64\<close> or \<open>int64\<close> holds real values.
\<close>

datatype dtype = Int64 | Float64 | Complex128

fun kind_rank :: "dtype \<Rightarrow> nat" where
  "kind_rank Int64 = 0"
| "kind_rank Float64 = 1"
| "kind_rank Complex128 = 2"

definition result_type :: "dtype \<Rightarrow> dtype \<Rightarrow> dtype" where
  "result_type a b = (if kind_rank a \<le> kind_rank b then b else a)"

definition can_cast_same_kind :: "dtype \<Rightarrow> dtype \<Rightarrow> bool" where
  "can_cast_same_kind src dst = (kind_rank src \<le> kind_rank dst)"

fun dtype_name :: "dtype \<Rightarrow> string" where
  "dtype_name Int64 = ''int64''"
| "dtype_name Float64 = ''float64''"
| "dtype_name Complex128 = ''complex128''"

record ndarray =
  dtype :: dtype
  entries :: matrix

definition complex128 :: "matrix \<Rightarrow> ndarray" where
  "complex128 m = \<lparr> dtype = Complex128, entries = m \<rparr>"

definition float64 :: "matrix \<Rightarrow> ndarray" where
  "float64 m = \<lparr> dtype = Float64, entries = m \<rparr>"

text \<open>
  numpy orders complex numbers lexicographically, by real part and then by imaginary
  part; \<open>val < -atol\<close> on an eigenvalue and \<open>self.rs.uniform() < prob_zero\<close> are
  comparisons of this kind.
\<close>

definition complex_less :: "complex \<Rightarrow> complex \<Rightarrow> bool" where
  "complex_less a b = (Re a < Re b \<or> (Re a = Re b \<and> Im a < Im b))"

text \<open>
  \<open>np.isclose(a, b, rtol, atol)\<close> is \<open>|a - b| <= atol + rtol * |b|\<close>, and
  \<open>np.allclose\<close> asks it of every pair of entries of two arrays of one shape.
\<close>

definition isclose :: "complex \<Rightarrow> complex \<Rightarrow> real \<Rightarrow> real \<Rightarrow> bool" where
  "isclose a b rtol atol = (cmod (a - b) \<le> atol + rtol * cmod b)"

definition allclose :: "matrix \<Rightarrow> matrix \<Rightarrow> real \<Rightarrow> real \<Rightarrow> bool" where
  "allclose a b rtol atol = list_all2 (list_all2 (\<lambda>x y. isclose x y rtol atol)) a b"

text \<open>
  \<open>int(np.log2(rows))\<close> for \<open>rows > 0\<close>: the logarithm to base 2, truncated. (For a
  dimension that an array in memory can have, the double nearest to the logarithm has
  the same integer part as the logarithm itself.) For \<open>rows = 0\<close> the logarithm is
  \<open>-inf\<close> and \<open>int\<close> raises OverflowError.
\<close>

fun floor_log2 :: "nat \<Rightarrow> nat" where
  "floor_log2 n = (if n < 2 then 0 else Suc (floor_log2 (n div 2)))"

declare floor_log2.simps [simp del]

definition int_log2 :: "nat \<Rightarrow> error + nat" where
  "int_log2 rows =
     (if rows = 0 then Inl (Raise OverflowError ''cannot convert float infinity to integer'')
      else Inr (floor_log2 rows))"

subsection \<open>The validity check of a density matrix\<close>

text \<open>
  \<open>_is_valid_quantum_state(state_matrix, rtol=1e-05, atol=1e-08)\<close>. The eigenvalues come
  from \<open>np.linalg.eigvals\<close> and the text of the tolerance in the last message from
  Python's \<open>str\<close>; both are parameters.
\<close>

definition default_rtol :: real where
  "default_rtol = 1 / 100000"

definition default_atol :: real where
  "default_atol = 1 / 100000000"

definition is_valid_quantum_state ::
  "(matrix \<Rightarrow> complex list) \<Rightarrow> (real \<Rightarrow> string) \<Rightarrow> matrix \<Rightarrow> real \<Rightarrow> real \<Rightarrow> error + bool"
where
  "is_valid_quantum_state eigvals str state_matrix rtol atol =
     (let hermitian = allclose state_matrix (conjugate (transpose_m state_matrix)) rtol atol in
      if \<not> hermitian then Inl (Raise ValueError ''The state matrix is not Hermitian.'')
      else
        let trace_one = isclose (trace state_matrix) 1 rtol atol in
        if \<not> trace_one then Inl (Raise ValueError ''The state matrix is not trace one.'')
        else
          let evals = eigvals state_matrix;
              non_neg_eigs =
                list_all (\<lambda>b. b)
                  (map (\<lambda>val. if complex_less val (of_real (- atol)) then False else True) evals)
          in
          if \<not> non_neg_eigs then
            Inl (Raise ValueError
              (''The state matrix has negative Eigenvalues of the order -'' @ str atol @ ''.''))
          else Inr (hermitian \<and> trace_one \<and> non_neg_eigs))"

subsection \<open>The density-matrix simulator\<close>

text \<open>
  Both simulator classes store the qubit count and the random state handed to the
  constructor (\<open>None\<close> when there is none); the density-matrix simulator adds the
  configured initial state and the current state.
\<close>

record 'rs simulator =
  n_qubits :: nat
  rs :: "'rs option"

record 'rs density_simulator = "'rs simulator" +
  initial_density :: ndarray
  density :: ndarray

text \<open>
  The matrix of the state \<open>|000...00>\<close>: \<open>np.zeros(..., dtype=np.complex128)\<close>, with a
  one at index \<open>(0, 0)\<close>.
\<close>

definition zero_state_density :: "nat \<Rightarrow> ndarray" where
  "zero_state_density n = complex128 (set_entry (zeros (2 ^ n) (2 ^ n)) 0 0 1)"

text \<open>\<open>ReferenceDensitySimulator.__init__\<close>.\<close>

definition density_init :: "nat \<Rightarrow> 'rs option \<Rightarrow> 'rs density_simulator" where
  "density_init n r =
     \<lparr> n_qubits = n, rs = r,
       initial_density = zero_state_density n,
       density = zero_state_density n \<rparr>"

text \<open>
  \<open>ReferenceDensitySimulator.set_initial_state\<close>. The argument is \<open>None\<close> or a
  two-dimensional array. Every assignment of the method binds the attribute
  \<open>initial_density\<close> to another array (a fresh one, or the argument); no array is
  written in place except the fresh one, so the arrays are values here. The checks read
  the values of the argument; its element type is stored with it.
\<close>

definition set_initial_state ::
  "(matrix \<Rightarrow> complex list) \<Rightarrow> (real \<Rightarrow> string) \<Rightarrow> 'rs density_simulator \<Rightarrow> ndarray option
     \<Rightarrow> (error + unit) \<times> 'rs density_simulator"
where
  "set_initial_state eigvals str self state_matrix =
     (case state_matrix of
        None \<Rightarrow> (Inr (), self\<lparr>initial_density := zero_state_density (n_qubits self)\<rparr>)
      | Some m \<Rightarrow>
          (let (rows, cols) = shape (entries m) in
           if rows \<noteq> cols then
             (Inl (Raise ValueError ''The state matrix is not square.''), self)
           else
             (case int_log2 rows of
                Inl e \<Rightarrow> (Inl e, self)
              | Inr l \<Rightarrow>
                  if n_qubits self \<noteq> l then
                    (Inl (Raise ValueError
                       (''The state matrix is not defined on the same numbers of qubits as ''
                         @ ''the QVM.'')), self)
                  else
                    (case is_valid_quantum_state eigvals str (entries m) default_rtol
                            default_atol of
                       Inl e \<Rightarrow> (Inl e, self)
                     | Inr valid \<Rightarrow>
                         if valid then (Inr (), self\<lparr>initial_density := m\<rparr>)
                         else
                           (Inl (Raise ValueError
                              (''The state matrix is not valid. It must be Hermitian, trace one, ''
                                @ ''and have non-negative eigenvalues.'')), self)))))"

text \<open>\<open>ReferenceDensitySimulator.reset\<close>.\<close>

definition density_reset :: "'rs density_simulator \<Rightarrow> 'rs density_simulator" where
  "density_reset self = self\<lparr>density := initial_density self\<rparr>"

text \<open>
  \<open>ReferenceDensitySimulator.expectation\<close>: the body is a single \<open>raise\<close>.
\<close>

definition density_expectation ::
  "'rs density_simulator \<Rightarrow> 'op \<Rightarrow> (error + complex) \<times> 'rs density_simulator"
where
  "density_expectation self operator = (Inl (Raise NotImplementedError ''To implement''), self)"

subsection \<open>Products of arrays\<close>

text \<open>
  \<open>a @ b\<close> and \<open>a.dot(b)\<close> of numpy, for two vectors, a matrix and a vector, and two
  matrices. numpy raises ValueError when the inner dimensions differ; the simulators
  only multiply arrays of dimension \<open>2 ^ n_qubits\<close>, and the theorems below state that
  shape as a hypothesis where a product is taken.
\<close>

definition dot_vv :: "vector \<Rightarrow> vector \<Rightarrow> complex" where
  "dot_vv a b = sum_list (map2 (*) a b)"

definition column :: "matrix \<Rightarrow> nat \<Rightarrow> vector" where
  "column m j = map (\<lambda>row. row ! j) m"

definition dot_mv :: "matrix \<Rightarrow> vector \<Rightarrow> vector" where
  "dot_mv m v = map (\<lambda>row. dot_vv row v) m"

definition dot_mm :: "matrix \<Rightarrow> matrix \<Rightarrow> matrix" where
  "dot_mm a b = map (\<lambda>row. map (\<lambda>j. dot_vv row (column b j)) [0..<snd (shape b)]) a"

text \<open>\<open>np.eye(n)\<close>, \<open>m / s\<close> for a scalar \<open>s\<close>, \<open>a += b\<close> and \<open>np.conj(v)\<close>.\<close>

definition eye :: "nat \<Rightarrow> matrix" where
  "eye n = map (\<lambda>i. map (\<lambda>j. if i = j then 1 else 0) [0..<n]) [0..<n]"

definition divide_scalar :: "matrix \<Rightarrow> complex \<Rightarrow> matrix" where
  "divide_scalar m s = map (map (\<lambda>x. x / s)) m"

definition add_m :: "matrix \<Rightarrow> matrix \<Rightarrow> matrix" where
  "add_m a b = map2 (map2 (+)) a b"

definition conj_v :: "vector \<Rightarrow> vector" where
  "conj_v v = map cnj v"

text \<open>
  The same operations on arrays with an element type. A product has the result type of
  its factors; conjugation, transposition and \<open>np.zeros_like\<close> keep the element type.
  \<open>a += b\<close> writes into \<open>a\<close>: numpy raises UFuncTypeError (a TypeError) when the element
  type of \<open>b\<close> cannot be cast to that of \<open>a\<close>.
\<close>

definition nd_dot :: "ndarray \<Rightarrow> ndarray \<Rightarrow> ndarray" where
  "nd_dot a b =
     \<lparr> dtype = result_type (dtype a) (dtype b), entries = dot_mm (entries a) (entries b) \<rparr>"

definition nd_conj_transpose :: "ndarray \<Rightarrow> ndarray" where
  "nd_conj_transpose a = a\<lparr>entries := conjugate (transpose_m (entries a))\<rparr>"

definition nd_zeros_like :: "ndarray \<Rightarrow> ndarray" where
  "nd_zeros_like a = a\<lparr>entries := zeros_like (entries a)\<rparr>"

definition quoted :: "string \<Rightarrow> string" where
  "quoted s = CHR 0x27 # s @ [CHR 0x27]"

definition cast_message :: "dtype \<Rightarrow> dtype \<Rightarrow> string" where
  "cast_message src dst =
     ''Cannot cast ufunc '' @ quoted ''add'' @ '' output from dtype('' @ quoted (dtype_name src)
     @ '') to dtype('' @ quoted (dtype_name dst) @ '') with casting rule '' @ quoted ''same_kind''"

definition iadd :: "ndarray \<Rightarrow> ndarray \<Rightarrow> error + ndarray" where
  "iadd a b =
     (if can_cast_same_kind (dtype b) (dtype a)
      then Inr (a\<lparr>entries := add_m (entries a) (entries b)\<rparr>)
      else Inl (Raise UFuncTypeError (cast_message (dtype b) (dtype a))))"

subsection \<open>Constants and helpers of other modules\<close>

text \<open>
  Modelled from the spec: the constants \<open>P0\<close> and \<open>P1\<close> of \<open>pyquil.gate_matrices\<close> are
  not among the sources. The specification calls \<open>P0\<close> the projector onto the zero
  subspace of one qubit and \<open>P1\<close> the complementary projector.
\<close>

definition P0 :: matrix where
  "P0 = [[1, 0], [0, 0]]"

definition P1 :: matrix where
  "P1 = [[0, 0], [0, 1]]"

text \<open>
  Modelled from the spec: \<open>lifted_gate_matrix\<close> of \<open>pyquil.unitary_tools\<close> is not among
  the sources. The specification (4.1, 4.2) has it tensor the operator with identities
  on the untouched qubits and permute the basis so that the operator acts on the listed
  qubits, qubit 0 being the least significant bit of a basis index. Entry \<open>(i, j)\<close> of the
  result is therefore zero unless \<open>i\<close> and \<open>j\<close> agree on every untouched qubit, and is then
  the entry of the operator at the indices read off the listed qubits (the first listed
  qubit the most significant, as the Bell-pair scenario of the specification needs for
  CNOT). The result is a complex matrix, as every operator of the specification (3) is.
  The simulator methods below take the lifting function as a parameter \<open>lift\<close>; this
  definition is the instance the specification describes.
\<close>

definition qubit_bit :: "nat \<Rightarrow> nat \<Rightarrow> nat" where
  "qubit_bit q i = (i div 2 ^ q) mod 2"

definition sub_index :: "nat list \<Rightarrow> nat \<Rightarrow> nat" where
  "sub_index qubit_inds i = foldl (\<lambda>acc q. 2 * acc + qubit_bit q i) 0 qubit_inds"

definition agree_elsewhere :: "nat list \<Rightarrow> nat \<Rightarrow> nat \<Rightarrow> nat \<Rightarrow> bool" where
  "agree_elsewhere qubit_inds n i j =
     list_all (\<lambda>b. b \<in> set qubit_inds \<or> qubit_bit b i = qubit_bit b j) [0..<n]"

definition lifted_entries :: "matrix \<Rightarrow> nat list \<Rightarrow> nat \<Rightarrow> matrix" where
  "lifted_entries m qubit_inds n =
     map (\<lambda>i. map (\<lambda>j. if agree_elsewhere qubit_inds n i j
                         then m ! sub_index qubit_inds i ! sub_index qubit_inds j else 0)
                [0..<2 ^ n])
       [0..<2 ^ n]"

definition lifted_gate_matrix :: "matrix \<Rightarrow> nat list \<Rightarrow> nat \<Rightarrow> ndarray" where
  "lifted_gate_matrix m qubit_inds n = complex128 (lifted_entries m qubit_inds n)"

text \<open>
  Modelled from the spec: \<open>all_bitstrings\<close> of \<open>pyquil.unitary_tools\<close> is not among the
  sources. The specification (4.1) has it list the \<open>2 ^ n\<close> bit patterns in the order of
  their integer index, position 0 of a pattern holding the last qubit.
\<close>

definition all_bitstrings :: "nat \<Rightarrow> nat list list" where
  "all_bitstrings n = map (\<lambda>i. map (\<lambda>q. qubit_bit q i) (rev [0..<n])) [0..<2 ^ n]"

text \<open>
  Fancy indexing \<open>possible_bitstrings[inds, :]\<close> followed by \<open>np.flip(..., axis=1)\<close>:
  numpy raises IndexError on an index outside the array.
\<close>

definition take_rows_flipped :: "nat list list \<Rightarrow> nat list \<Rightarrow> error + nat list list" where
  "take_rows_flipped possible_bitstrings inds =
     (if list_all (\<lambda>i. i < length possible_bitstrings) inds
      then Inr (map (\<lambda>i. rev (possible_bitstrings ! i)) inds)
      else Inl (Raise IndexError ''index is out of bounds for axis 0''))"

definition stochastic_message :: string where
  "stochastic_message =
     ''You have tried to perform a stochastic operation without setting the ''
     @ ''random state of the simulator. Might I suggest using a PyQVM object?''"

subsection \<open>The wavefunction simulator\<close>

record 'rs wavefunction_simulator = "'rs simulator" +
  wf :: vector

text \<open>\<open>ReferenceWavefunctionSimulator.__init__\<close>: amplitude one at index 0.\<close>

definition wavefunction_init :: "nat \<Rightarrow> 'rs option \<Rightarrow> 'rs wavefunction_simulator" where
  "wavefunction_init n r = \<lparr> n_qubits = n, rs = r, wf = (replicate (2 ^ n) 0)[0 := 1] \<rparr>"

text \<open>
  \<open>ReferenceWavefunctionSimulator.sample_bitstrings\<close>. \<open>self.rs.choice(a, size, p)\<close> is
  a parameter: given the random state it returns the drawn indices, or the exception it
  raises, and the random state after the call. The probabilities are a new array,
  \<open>np.abs(self.wf) ** 2\<close>.
\<close>

definition wavefunction_probabilities :: "'rs wavefunction_simulator \<Rightarrow> real list" where
  "wavefunction_probabilities self = map (\<lambda>a. (cmod a)\<^sup>2) (wf self)"

definition wavefunction_sample_bitstrings ::
  "('rs \<Rightarrow> nat \<Rightarrow> int \<Rightarrow> real list \<Rightarrow> (error + nat list) \<times> 'rs)
     \<Rightarrow> 'rs wavefunction_simulator \<Rightarrow> int
     \<Rightarrow> (error + nat list list) \<times> 'rs wavefunction_simulator"
where
  "wavefunction_sample_bitstrings choice self n_samples =
     (case rs self of
        None \<Rightarrow> (Inl (Raise ValueError stochastic_message), self)
      | Some r \<Rightarrow>
          (let probabilities = wavefunction_probabilities self;
               possible_bitstrings = all_bitstrings (n_qubits self);
               (drawn, r') = choice r (2 ^ n_qubits self) n_samples probabilities
           in case drawn of
                Inl e \<Rightarrow> (Inl e, self\<lparr>rs := Some r'\<rparr>)
              | Inr inds \<Rightarrow> (take_rows_flipped possible_bitstrings inds, self\<lparr>rs := Some r'\<rparr>)))"

text \<open>
  \<open>ReferenceWavefunctionSimulator.do_measurement\<close>. \<open>self.rs.uniform()\<close> is a parameter
  that returns the draw and the random state after it. \<open>prob_zero\<close> is a complex128
  scalar, compared with the draw in numpy's order and passed to \<open>np.sqrt\<close>, the
  principal square root. The state vector is complex128, so every product is; only the
  values of the lifted matrices enter.
\<close>

definition wavefunction_do_measurement ::
  "(matrix \<Rightarrow> nat list \<Rightarrow> nat \<Rightarrow> ndarray) \<Rightarrow> ('rs \<Rightarrow> real \<times> 'rs)
     \<Rightarrow> 'rs wavefunction_simulator \<Rightarrow> nat
     \<Rightarrow> (error + nat) \<times> 'rs wavefunction_simulator"
where
  "wavefunction_do_measurement lift uniform self qubit =
     (case rs self of
        None \<Rightarrow> (Inl (Raise ValueError stochastic_message), self)
      | Some r \<Rightarrow>
          (let measure_0 = entries (lift P0 [qubit] (n_qubits self));
               proj_psi = dot_mv measure_0 (wf self);
               prob_zero = dot_vv (conj_v proj_psi) proj_psi;
               (u, r') = uniform r
           in if complex_less (of_real u) prob_zero then
                (let unitary =
                       dot_mm measure_0
                         (divide_scalar (eye (2 ^ n_qubits self)) (csqrt prob_zero))
                 in (Inr 0, self\<lparr>rs := Some r', wf := dot_mv unitary (wf self)\<rparr>))
              else
                (let measure_1 = entries (lift P1 [qubit] (n_qubits self));
                     unitary =
                       dot_mm measure_1
                         (divide_scalar (eye (2 ^ n_qubits self)) (csqrt (1 - prob_zero)))
                 in (Inr 1, self\<lparr>rs := Some r', wf := dot_mv unitary (wf self)\<rparr>))))"

text \<open>
  \<open>ReferenceWavefunctionSimulator.do_post_gate_noise\<close>: the body is a single \<open>raise\<close>.
\<close>

definition wavefunction_do_post_gate_noise ::
  "'rs wavefunction_simulator \<Rightarrow> string \<Rightarrow> real \<Rightarrow> nat list
     \<Rightarrow> (error + unit) \<times> 'rs wavefunction_simulator"
where
  "wavefunction_do_post_gate_noise self noise_type noise_prob qubits =
     (Inl (Raise NotImplementedError
        ''The reference wavefunction simulator cannot handle noise''), self)"






subsection \<open>Sampling and noise on the density-matrix simulator\<close>

text \<open>
  \<open>np.real_if_close(a, tol)\<close>: an array that is not complex is returned as it is. On a
  complex array a tolerance above 1 is a multiple of the machine epsilon \<open>2 ^ -52\<close>; when
  every imaginary part is below the tolerance the real parts are returned, otherwise the
  array itself.
\<close>

definition machine_epsilon :: real where
  "machine_epsilon = 1 / 2 ^ 52"

definition real_if_close :: "dtype \<Rightarrow> vector \<Rightarrow> real \<Rightarrow> vector" where
  "real_if_close d a tol =
     (if d \<noteq> Complex128 then a
      else
        let tol' = (if tol > 1 then machine_epsilon * tol else tol)
        in if list_all (\<lambda>x. \<bar>Im x\<bar> < tol') a then map (\<lambda>x. of_real (Re x)) a else a)"

text \<open>\<open>np.diagonal(m)\<close>.\<close>

definition diagonal :: "matrix \<Rightarrow> vector" where
  "diagonal m = map (\<lambda>i. m ! i ! i) [0..<min (fst (shape m)) (snd (shape m))]"

text \<open>
  The probability vector that \<open>ReferenceDensitySimulator.sample_bitstrings\<close> hands to
  \<open>choice\<close>: the diagonal, made real when close to real, negative entries replaced by
  zero, divided by the sum.
\<close>

definition density_probabilities :: "'rs density_simulator \<Rightarrow> real \<Rightarrow> vector" where
  "density_probabilities self tol_factor =
     (let probabilities =
            real_if_close (dtype (density self)) (diagonal (entries (density self))) tol_factor;
          probabilities = map (\<lambda>p. if complex_less p 0 then 0 else p) probabilities
      in map (\<lambda>p. p / sum_list probabilities) probabilities)"

definition density_sample_bitstrings ::
  "('rs \<Rightarrow> nat \<Rightarrow> int \<Rightarrow> vector \<Rightarrow> (error + nat list) \<times> 'rs)
     \<Rightarrow> 'rs density_simulator \<Rightarrow> int \<Rightarrow> real
     \<Rightarrow> (error + nat list list) \<times> 'rs density_simulator"
where
  "density_sample_bitstrings choice self n_samples tol_factor =
     (case rs self of
        None \<Rightarrow> (Inl (Raise ValueError stochastic_message), self)
      | Some r \<Rightarrow>
          (let probabilities = density_probabilities self tol_factor;
               possible_bitstrings = all_bitstrings (n_qubits self);
               (drawn, r') = choice r (2 ^ n_qubits self) n_samples probabilities
           in case drawn of
                Inl e \<Rightarrow> (Inl e, self\<lparr>rs := Some r'\<rparr>)
              | Inr inds \<Rightarrow> (take_rows_flipped possible_bitstrings inds, self\<lparr>rs := Some r'\<rparr>)))"

text \<open>
  \<open>ReferenceDensitySimulator.do_post_gate_noise\<close>. The inner loop runs over the Kraus
  operators and adds \<open>K \<rho> K\<^sup>\<dagger>\<close> into \<open>new_density\<close>, an array made by
  \<open>np.zeros_like(self.density)\<close> and therefore of the element type of the current state;
  the addition is in place and can raise. The outer loop runs over the qubits and
  assigns \<open>new_density\<close> to \<open>self.density\<close>; when the inner loop raises, the state is the
  one assigned for the qubit before.
\<close>

fun kraus_loop ::
  "(matrix \<Rightarrow> nat list \<Rightarrow> nat \<Rightarrow> ndarray) \<Rightarrow> nat \<Rightarrow> ndarray \<Rightarrow> nat \<Rightarrow> matrix list \<Rightarrow> ndarray
     \<Rightarrow> error + ndarray"
where
  "kraus_loop lift n \<rho> q [] new_density = Inr new_density"
| "kraus_loop lift n \<rho> q (kraus_op # rest) new_density =
     (let lifted_kraus_op = lift kraus_op [q] n
      in case iadd new_density
                (nd_dot (nd_dot lifted_kraus_op \<rho>) (nd_conj_transpose lifted_kraus_op)) of
           Inl e \<Rightarrow> Inl e
         | Inr new_density' \<Rightarrow> kraus_loop lift n \<rho> q rest new_density')"

fun qubit_loop ::
  "(matrix \<Rightarrow> nat list \<Rightarrow> nat \<Rightarrow> ndarray) \<Rightarrow> nat \<Rightarrow> matrix list \<Rightarrow> ndarray \<Rightarrow> nat list
     \<Rightarrow> (error + unit) \<times> ndarray"
where
  "qubit_loop lift n kraus_ops \<rho> [] = (Inr (), \<rho>)"
| "qubit_loop lift n kraus_ops \<rho> (q # qubits) =
     (case kraus_loop lift n \<rho> q kraus_ops (nd_zeros_like \<rho>) of
        Inl e \<Rightarrow> (Inl e, \<rho>)
      | Inr new_density \<Rightarrow> qubit_loop lift n kraus_ops new_density qubits)"

text \<open>
  The table \<open>KRAUS_OPS\<close> of \<open>pyquil.gate_matrices\<close>, a dictionary from channel names to
  functions of the probability, is a parameter. \<open>np.isclose(noise_prob, 0.0)\<close> uses the
  default tolerances. The third component of the result lists the warnings emitted by
  \<open>warnings.warn\<close>.
\<close>

definition skip_warning :: "string \<Rightarrow> string" where
  "skip_warning noise_type =
     ''Skipping '' @ noise_type @ '' post-gate noise because noise_prob is close to 0''"

definition density_do_post_gate_noise ::
  "(matrix \<Rightarrow> nat list \<Rightarrow> nat \<Rightarrow> ndarray) \<Rightarrow> (string \<rightharpoonup> (real \<Rightarrow> matrix list))
     \<Rightarrow> 'rs density_simulator \<Rightarrow> string \<Rightarrow> real \<Rightarrow> nat list
     \<Rightarrow> (error + unit) \<times> 'rs density_simulator \<times> string list"
where
  "density_do_post_gate_noise lift KRAUS_OPS self noise_type noise_prob qubits =
     (case KRAUS_OPS noise_type of
        None \<Rightarrow> (Inl (Raise KeyError noise_type), self, [])
      | Some channel \<Rightarrow>
          (let kraus_ops = channel noise_prob
           in if isclose (of_real noise_prob) 0 default_rtol default_atol then
                (Inr (), self, [skip_warning noise_type])
              else
                (let (outcome, \<rho>) =
                       qubit_loop lift (n_qubits self) kraus_ops (density self) qubits
                 in (outcome, self\<lparr>density := \<rho>\<rparr>, []))))"

subsection \<open>Notions of the specification\<close>

text \<open>
  The validity check in the words of the specification (4.3): Hermitian within
  tolerance, entry by entry; trace within tolerance of one; every eigenvalue at least
  \<open>-atol\<close>, in numpy's order of complex numbers.
\<close>

definition hermitian_within :: "matrix \<Rightarrow> real \<Rightarrow> real \<Rightarrow> bool" where
  "hermitian_within m rtol atol =
     list_all
       (\<lambda>i. list_all
          (\<lambda>j. cmod (m ! i ! j - cnj (m ! j ! i)) \<le> atol + rtol * cmod (m ! j ! i))
          [0..<length m])
       [0..<length m]"

definition trace_one_within :: "matrix \<Rightarrow> real \<Rightarrow> real \<Rightarrow> bool" where
  "trace_one_within m rtol atol = (cmod ((\<Sum>i<length m. m ! i ! i) - 1) \<le> atol + rtol)"

definition eigenvalues_at_least :: "complex list \<Rightarrow> real \<Rightarrow> bool" where
  "eigenvalues_at_least evals bound =
     list_all (\<lambda>val. \<not> complex_less val (of_real bound)) evals"

text \<open>
  The error kinds of the specification are all raised as ValueError by the source and
  told apart by their messages.
\<close>

definition NotHermitian :: error where
  "NotHermitian = Raise ValueError ''The state matrix is not Hermitian.''"

definition NotTraceOne :: error where
  "NotTraceOne = Raise ValueError ''The state matrix is not trace one.''"

definition NegativeEigenvalue :: "(real \<Rightarrow> string) \<Rightarrow> error" where
  "NegativeEigenvalue str =
     Raise ValueError
       (''The state matrix has negative Eigenvalues of the order -'' @ str default_atol @ ''.'')"

text \<open>
  Measurement of qubit \<open>q\<close> in the words of the specification (4.4), written out on
  the amplitudes. A basis index \<open>i\<close> has the measured qubit at zero when
  \<open>(i div 2 ^ q) mod 2 = 0\<close>. The probability of the outcome 0 is the sum of the squared
  moduli of the amplitudes at those indices, which is \<open><psi|P0|psi>\<close> for the projector
  \<open>P0\<close> onto them; applying \<open>P / s\<close> for the projector onto the indices whose bit is \<open>b\<close>
  keeps the amplitudes at those indices, divided by \<open>s\<close>, and sets the others to zero.
\<close>

definition born_prob_zero :: "vector \<Rightarrow> nat \<Rightarrow> real" where
  "born_prob_zero \<psi> q =
     (\<Sum>i\<leftarrow>[0..<length \<psi>]. if (i div 2 ^ q) mod 2 = 0 then (cmod (\<psi> ! i))\<^sup>2 else 0)"

definition collapsed :: "vector \<Rightarrow> nat \<Rightarrow> nat \<Rightarrow> complex \<Rightarrow> vector" where
  "collapsed \<psi> q b s =
     map (\<lambda>i. if (i div 2 ^ q) mod 2 = b then \<psi> ! i / s else 0) [0..<length \<psi>]"

text \<open>
  The expectation \<open><psi|A|psi>\<close> of a matrix in a state vector, computed with the array
  products, and the diagonal matrix with a one at the indices that satisfy a condition
  (a projector onto a set of basis states). Both serve the proofs.
\<close>

definition bra_ket :: "vector \<Rightarrow> matrix \<Rightarrow> complex" where
  "bra_ket \<psi> a = dot_vv (conj_v \<psi>) (dot_mv a \<psi>)"

definition diagonal_projector :: "nat \<Rightarrow> (nat \<Rightarrow> bool) \<Rightarrow> matrix" where
  "diagonal_projector k c =
     map (\<lambda>i. map (\<lambda>j. if i = j \<and> c i then 1 else 0) [0..<k]) [0..<k]"








text \<open>The class of the exception an outcome carries, if it carries one.\<close>

fun raised_class :: "error + 'a \<Rightarrow> exception_class option" where
  "raised_class (Inl e) = Some (error_class e)"
| "raised_class (Inr v) = None"

fun raised_message :: "error + 'a \<Rightarrow> string option" where
  "raised_message (Inl e) = Some (error_message e)"
| "raised_message (Inr v) = None"

subsection \<open>Instances of the parameters, for evaluation at concrete inputs\<close>

text \<open>
  \<open>np.linalg.eigvals\<close> at a diagonal matrix gives its diagonal; \<open>str(1e-08)\<close> is the
  text \<open>1e-08\<close>; a random state that replays a recorded list of uniform draws; a
  \<open>choice\<close> that always draws index 0; a table with the bit-flip channel, whose Kraus
  operators are \<open>sqrt(1 - p) I\<close> and \<open>sqrt(p) X\<close>, and the bit-phase-flip channel, whose
  Kraus operators are \<open>sqrt(1 - p) I\<close> and \<open>sqrt(p) Y\<close>; and a \<open>lifted_gate\<close> for gates
  given by a name and a qubit list, which knows the gate X.
\<close>

definition eigvals_diagonal :: "matrix \<Rightarrow> complex list" where
  "eigvals_diagonal m = map (\<lambda>i. m ! i ! i) [0..<length m]"

definition str_tolerance :: "real \<Rightarrow> string" where
  "str_tolerance x = ''1e-08''"

definition replay_uniform :: "real list \<Rightarrow> real \<times> real list" where
  "replay_uniform r = (case r of [] \<Rightarrow> (0, []) | u # rest \<Rightarrow> (u, rest))"

definition choice_first :: "nat \<Rightarrow> nat \<Rightarrow> int \<Rightarrow> 'p list \<Rightarrow> (error + nat list) \<times> nat" where
  "choice_first r a n_samples p = (Inr (replicate (nat n_samples) 0), Suc r)"

definition bit_flip_operators :: "real \<Rightarrow> matrix list" where
  "bit_flip_operators p =
     [[[of_real (sqrt (1 - p)), 0], [0, of_real (sqrt (1 - p))]],
      [[0, of_real (sqrt p)], [of_real (sqrt p), 0]]]"

definition bitphase_flip_operators :: "real \<Rightarrow> matrix list" where
  "bitphase_flip_operators p =
     [[[of_real (sqrt (1 - p)), 0], [0, of_real (sqrt (1 - p))]],
      [[0, - \<i> * of_real (sqrt p)], [\<i> * of_real (sqrt p), 0]]]"

definition bit_flip_table :: "string \<rightharpoonup> (real \<Rightarrow> matrix list)" where
  "bit_flip_table =
     [''bit_flip'' \<mapsto> bit_flip_operators, ''bitphase_flip'' \<mapsto> bitphase_flip_operators]"


section \<open>Properties\<close>

subsection \<open>Shapes and the truncated logarithm\<close>

lemma shape_square: "has_shape m k k \<Longrightarrow> shape m = (k, k)"
  by (cases m) (auto simp: has_shape_def shape_def)

lemma has_shape_nth: "has_shape m r c \<Longrightarrow> i < r \<Longrightarrow> length (m ! i) = c"
  by (auto simp: has_shape_def list_all_length)

lemma floor_log2_bounds: "0 < r \<Longrightarrow> 2 ^ floor_log2 r \<le> r \<and> r < 2 ^ Suc (floor_log2 r)"
proof (induction r rule: floor_log2.induct)
  case (1 n)
  show ?case
  proof (cases "n < 2")
    case True
    with 1 show ?thesis by (simp add: floor_log2.simps)
  next
    case False
    then have "0 < n div 2" by simp
    with 1 False
    have IH: "2 ^ floor_log2 (n div 2) \<le> n div 2 \<and> n div 2 < 2 ^ Suc (floor_log2 (n div 2))"
      by simp
    have E: "floor_log2 n = Suc (floor_log2 (n div 2))"
      using False by (simp add: floor_log2.simps)
    show ?thesis unfolding E using IH by (simp; linarith)
  qed
qed

lemma floor_log2_unique:
  assumes "2 ^ k \<le> r" and "r < 2 ^ Suc k"
  shows "floor_log2 r = k"
proof -
  have "0 < r"
    using assms(1) by (metis less_le_trans zero_less_numeral zero_less_power)
  from floor_log2_bounds[OF this]
  have b: "2 ^ floor_log2 r \<le> r" "r < 2 ^ Suc (floor_log2 r)" by auto
  have "(2::nat) ^ k < 2 ^ Suc (floor_log2 r)" using assms b by linarith
  then have 1: "k < Suc (floor_log2 r)"
    by (simp only: power_strict_increasing_iff[of 2] one_less_numeral_iff semiring_norm)
  have "(2::nat) ^ floor_log2 r < 2 ^ Suc k" using assms b by linarith
  then have 2: "floor_log2 r < Suc k"
    by (simp only: power_strict_increasing_iff[of 2] one_less_numeral_iff semiring_norm)
  from 1 2 show ?thesis by linarith
qed

lemma int_log2_power: "int_log2 (2 ^ k) = Inr k"
  by (simp add: int_log2_def floor_log2_unique)

text \<open>
  The dimension test of \<open>set_initial_state\<close> lets through every row count from \<open>2 ^ n\<close>
  up to, but not including, \<open>2 ^ (n + 1)\<close>.
\<close>

lemma int_log2_accepts_iff:
  "int_log2 rows = Inr n \<longleftrightarrow> 2 ^ n \<le> rows \<and> rows < 2 ^ Suc n"
proof (cases "rows = 0")
  case True
  then show ?thesis by (simp add: int_log2_def)
next
  case False
  then have pos: "0 < rows" by simp
  show ?thesis
  proof
    assume "int_log2 rows = Inr n"
    then have "floor_log2 rows = n" using False by (simp add: int_log2_def)
    with floor_log2_bounds[OF pos] show "2 ^ n \<le> rows \<and> rows < 2 ^ Suc n" by blast
  next
    assume "2 ^ n \<le> rows \<and> rows < 2 ^ Suc n"
    then have "floor_log2 rows = n" by (simp add: floor_log2_unique)
    then show "int_log2 rows = Inr n" using False by (simp add: int_log2_def)
  qed
qed

subsection \<open>The validity check\<close>

lemma allclose_hermitian:
  assumes "has_shape m k k"
  shows "allclose m (conjugate (transpose_m m)) rtol atol = hermitian_within m rtol atol"
proof -
  have len: "length m = k" using assms by (simp add: has_shape_def)
  have row: "\<And>i. i < k \<Longrightarrow> length (m ! i) = k" using assms by (rule has_shape_nth)
  have sh: "snd (shape m) = k" using shape_square[OF assms] by simp
  show ?thesis
    unfolding allclose_def hermitian_within_def conjugate_def transpose_m_def sh
    by (auto simp: list_all2_conv_all_nth list_all_length len row isclose_def)
qed

lemma trace_sum:
  assumes "has_shape m k k"
  shows "trace m = (\<Sum>i<length m. m ! i ! i)"
proof -
  have "length m = k" using assms by (simp add: has_shape_def)
  then show ?thesis
    unfolding trace_def shape_square[OF assms]
    by (simp add: interv_sum_list_conv_sum_set_nat atLeast0LessThan)
qed

lemma all_comprehension:
  "list_all (\<lambda>b. b) (map (\<lambda>v. if P v then False else True) xs) = list_all (\<lambda>v. \<not> P v) xs"
  by (induction xs) simp_all

lemma is_valid_quantum_state_cases:
  assumes "has_shape m k k"
  shows "is_valid_quantum_state eigvals str m default_rtol default_atol =
     (if \<not> hermitian_within m default_rtol default_atol then Inl NotHermitian
      else if \<not> trace_one_within m default_rtol default_atol then Inl NotTraceOne
      else if \<not> eigenvalues_at_least (eigvals m) (- default_atol)
        then Inl (NegativeEigenvalue str)
      else Inr True)"
proof -
  have n: "list_all (\<lambda>b. b)
             (map (\<lambda>val. if complex_less val (of_real (- default_atol)) then False else True)
                (eigvals m))
        = eigenvalues_at_least (eigvals m) (- default_atol)"
    unfolding eigenvalues_at_least_def by (rule all_comprehension)
  have t: "isclose (trace m) 1 default_rtol default_atol
        = trace_one_within m default_rtol default_atol"
    by (simp add: isclose_def trace_one_within_def trace_sum[OF assms])
  show ?thesis
    unfolding is_valid_quantum_state_def Let_def allclose_hermitian[OF assms] n t
    by (simp add: NotHermitian_def NotTraceOne_def NegativeEigenvalue_def)
qed

text \<open>
  The check never returns \<open>False\<close>: it returns \<open>True\<close> or raises. The last \<open>raise\<close> of
  \<open>set_initial_state\<close>, with the message that names no invariant, is unreachable.
\<close>

lemma is_valid_quantum_state_never_False:
  "is_valid_quantum_state eigvals str m rtol atol \<noteq> Inr False"
  by (simp add: is_valid_quantum_state_def Let_def)

subsection \<open>The simulators on one qubit, written out\<close>

lemma density_init_one_qubit:
  "density_init (Suc 0) r =
     \<lparr> n_qubits = 1, rs = r, initial_density = complex128 [[1, 0], [0, 0]],
       density = complex128 [[1, 0], [0, 0]] \<rparr>"
  by (simp add: density_init_def zero_state_density_def zeros_def set_entry_def numeral_2_eq_2)

lemma wavefunction_init_one_qubit:
  "wavefunction_init (Suc 0) r = \<lparr> n_qubits = 1, rs = r, wf = [1, 0] \<rparr>"
  by (simp add: wavefunction_init_def numeral_2_eq_2)

subsection \<open>Installing an initial state\<close>

text \<open>
  C5. For a candidate of the size \<open>2 ^ n\<close> by \<open>2 ^ n\<close>, \<open>set_initial_state\<close> tests the
  three conditions in order and reports the first that fails: not Hermitian, then not
  trace one, then an eigenvalue below \<open>-atol\<close>; each failure is a ValueError whose
  message names the violated invariant and leaves the simulator as it was. The matrix is
  recorded as the initial state exactly when all three conditions hold.
\<close>

theorem set_initial_state_validity_order:
  assumes "has_shape (entries m) (2 ^ n_qubits self) (2 ^ n_qubits self)"
  shows "set_initial_state eigvals str self (Some m) =
     (if \<not> hermitian_within (entries m) default_rtol default_atol
        then (Inl NotHermitian, self)
      else if \<not> trace_one_within (entries m) default_rtol default_atol
        then (Inl NotTraceOne, self)
      else if \<not> eigenvalues_at_least (eigvals (entries m)) (- default_atol)
        then (Inl (NegativeEigenvalue str), self)
      else (Inr (), self\<lparr>initial_density := m\<rparr>))"
  unfolding set_initial_state_def
  by (simp add: shape_square[OF assms] int_log2_power is_valid_quantum_state_cases[OF assms])

text \<open>
  The example of the specification: \<open>[[1, 0], [1, 0]]\<close> on one qubit is rejected as not
  Hermitian and the simulator is unchanged.
\<close>

theorem set_initial_state_validity_order_witness:
  "has_shape (entries (complex128 [[1, 0], [1, 0]]))
       (2 ^ n_qubits (density_init 1 (None :: unit option)))
       (2 ^ n_qubits (density_init 1 (None :: unit option)))
   \<and> set_initial_state eigvals_diagonal str_tolerance (density_init 1 (None :: unit option))
       (Some (complex128 [[1, 0], [1, 0]]))
     = (Inl (Raise ValueError ''The state matrix is not Hermitian.''), density_init 1 None)"
proof -
  have h: "has_shape (entries (complex128 [[1, 0], [1, 0]]))
       (2 ^ n_qubits (density_init 1 (None :: unit option)))
       (2 ^ n_qubits (density_init 1 (None :: unit option)))"
    by (simp add: has_shape_def density_init_def complex128_def)
  have nh: "\<not> hermitian_within (entries (complex128 [[1, 0], [1, 0]])) default_rtol
               default_atol"
    by (simp add: hermitian_within_def default_rtol_def default_atol_def upt_rec
          complex128_def)
  show ?thesis
    using h set_initial_state_validity_order [OF h, of eigvals_diagonal str_tolerance] nh
    by (simp add: NotHermitian_def)
qed

text \<open>The other two rejections and an acceptance, evaluated on one qubit.\<close>

lemma set_initial_state_example_trace:
  "set_initial_state eigvals_diagonal str_tolerance (density_init 1 (None :: unit option))
       (Some (complex128 [[1, 0], [0, 1]]))
     = (Inl (Raise ValueError ''The state matrix is not trace one.''), density_init 1 None)"
  by (simp add: set_initial_state_def shape_def int_log2_def floor_log2.simps density_init_def
        is_valid_quantum_state_def allclose_def conjugate_def transpose_m_def isclose_def
        complex128_def trace_def default_rtol_def default_atol_def)

lemma set_initial_state_example_eigenvalue:
  "set_initial_state eigvals_diagonal str_tolerance (density_init 1 (None :: unit option))
       (Some (complex128 [[2, 0], [0, - 1]]))
     = (Inl (Raise ValueError
              ''The state matrix has negative Eigenvalues of the order -1e-08.''),
        density_init 1 None)"
  by (simp add: set_initial_state_def shape_def int_log2_def floor_log2.simps density_init_def
        is_valid_quantum_state_def allclose_def conjugate_def transpose_m_def isclose_def
        complex128_def trace_def default_rtol_def default_atol_def eigvals_diagonal_def complex_less_def
        str_tolerance_def upt_rec)

lemma set_initial_state_example_accepted:
  "set_initial_state eigvals_diagonal str_tolerance (density_init 1 (None :: unit option))
       (Some (complex128 [[0, 0], [0, 1]]))
     = (Inr (),
        (density_init 1 None)\<lparr>initial_density := complex128 [[0, 0], [0, 1]]\<rparr>)"
  by (simp add: set_initial_state_def shape_def int_log2_def floor_log2.simps density_init_def
        is_valid_quantum_state_def allclose_def conjugate_def transpose_m_def isclose_def
        complex128_def trace_def default_rtol_def default_atol_def eigvals_diagonal_def complex_less_def
        upt_rec)

text \<open>
  C1. The specification has every square matrix whose dimension is not \<open>2 ^ n\<close>
  rejected before the validity check. The source compares \<open>n_qubits\<close> with the truncated
  logarithm of the row count, so on one qubit the 3 by 3 matrix with a single one in the
  corner passes the dimension test, passes the validity check and is recorded as the
  initial state.
\<close>

theorem set_initial_state_accepts_3x3_on_one_qubit:
  "set_initial_state eigvals_diagonal str (density_init 1 r)
       (Some (complex128 [[1, 0, 0], [0, 0, 0], [0, 0, 0]]))
     = (Inr (),
        (density_init 1 r)
          \<lparr>initial_density := complex128 [[1, 0, 0], [0, 0, 0], [0, 0, 0]]\<rparr>)"
  by (simp add: set_initial_state_def shape_def int_log2_def floor_log2.simps density_init_def
        is_valid_quantum_state_def allclose_def conjugate_def transpose_m_def isclose_def
        complex128_def trace_def default_rtol_def default_atol_def eigvals_diagonal_def complex_less_def
        upt_rec)

text \<open>
  The dimension test in general: a square matrix is turned away for its size exactly
  when its row count is zero or lies outside \<open>2 ^ n \<le> rows < 2 ^ (n + 1)\<close>.
\<close>

lemma set_initial_state_dimension_test:
  assumes "has_shape (entries m) k k"
  shows "fst (set_initial_state eigvals str self (Some m)) =
            Inl (Raise ValueError
              (''The state matrix is not defined on the same numbers of qubits as ''
                @ ''the QVM.''))
         \<longleftrightarrow> 0 < k \<and> \<not> (2 ^ n_qubits self \<le> k \<and> k < 2 ^ Suc (n_qubits self))"
proof (cases "k = 0")
  case True
  then show ?thesis
    by (simp add: set_initial_state_def shape_square[OF assms] int_log2_def)
next
  case False
  have v: "is_valid_quantum_state eigvals str (entries m) default_rtol default_atol \<noteq>
             Inl (Raise ValueError
              (''The state matrix is not defined on the same numbers of qubits as ''
                @ ''the QVM.''))"
    by (simp add: is_valid_quantum_state_cases[OF assms] NotHermitian_def NotTraceOne_def
          NegativeEigenvalue_def)
  have a: "n_qubits self = floor_log2 k \<longleftrightarrow> 2 ^ n_qubits self \<le> k \<and> k < 2 ^ Suc (n_qubits self)"
    using int_log2_accepts_iff[of k "n_qubits self"] False by (auto simp: int_log2_def)
  show ?thesis
  proof (cases "n_qubits self = floor_log2 k")
    case True
    with a have "2 ^ n_qubits self \<le> k \<and> k < 2 ^ Suc (n_qubits self)" by simp
    moreover have "fst (set_initial_state eigvals str self (Some m)) \<noteq>
            Inl (Raise ValueError
              (''The state matrix is not defined on the same numbers of qubits as ''
                @ ''the QVM.''))"
      using True False v
      by (auto simp: set_initial_state_def shape_square[OF assms] int_log2_def
            split: sum.splits)
    ultimately show ?thesis by simp
  next
    case F: False
    with a have "\<not> (2 ^ n_qubits self \<le> k \<and> k < 2 ^ Suc (n_qubits self))" by simp
    moreover have "fst (set_initial_state eigvals str self (Some m)) =
            Inl (Raise ValueError
              (''The state matrix is not defined on the same numbers of qubits as ''
                @ ''the QVM.''))"
      using F False
      by (simp add: set_initial_state_def shape_square[OF assms] int_log2_def)
    ultimately show ?thesis using False by simp
  qed
qed

text \<open>
  An array of shape \<open>(0, 0)\<close> does not reach the comparison: \<open>int(np.log2(0))\<close> raises
  OverflowError.
\<close>

lemma set_initial_state_empty_matrix:
  "set_initial_state eigvals str self (Some \<lparr> dtype = d, entries = [] \<rparr>) =
     (Inl (Raise OverflowError ''cannot convert float infinity to integer''), self)"
  by (simp add: set_initial_state_def shape_def int_log2_def)

text \<open>
  C4. \<open>set_initial_state\<close> never changes the current density matrix. When it raises,
  the whole simulator is as before the call, the configured initial state included.
  When it returns, only the configured initial state has changed: it is the argument
  (or the matrix of \<open>|000...00>\<close> for \<open>None\<close>), which a later \<open>reset()\<close> makes the current
  state.
\<close>

theorem set_initial_state_preserves_density:
  "density (snd (set_initial_state eigvals str self state_matrix)) = density self \<and>
   (case fst (set_initial_state eigvals str self state_matrix) of
      Inl e \<Rightarrow> snd (set_initial_state eigvals str self state_matrix) = self
    | Inr u \<Rightarrow>
        snd (set_initial_state eigvals str self state_matrix) =
          self\<lparr>initial_density :=
            (case state_matrix of None \<Rightarrow> zero_state_density (n_qubits self) | Some m \<Rightarrow> m)\<rparr>
        \<and> density (density_reset (snd (set_initial_state eigvals str self state_matrix))) =
            (case state_matrix of None \<Rightarrow> zero_state_density (n_qubits self) | Some m \<Rightarrow> m))"
  unfolding set_initial_state_def density_reset_def
  by (auto simp: Let_def split: option.splits sum.splits prod.splits)

theorem set_initial_state_preserves_density_witness:
  "density (snd (set_initial_state eigvals_diagonal str_tolerance
       (density_init 1 (None :: unit option)) (Some (complex128 [[0, 0], [0, 1]]))))
     = complex128 [[1, 0], [0, 0]]
   \<and> initial_density (snd (set_initial_state eigvals_diagonal str_tolerance
       (density_init 1 (None :: unit option)) (Some (complex128 [[0, 0], [0, 1]]))))
     = complex128 [[0, 0], [0, 1]]
   \<and> density (snd (set_initial_state eigvals_diagonal str_tolerance
       (density_init 1 (None :: unit option)) (Some (complex128 [[1, 0], [1, 0]]))))
     = complex128 [[1, 0], [0, 0]]
   \<and> initial_density (snd (set_initial_state eigvals_diagonal str_tolerance
       (density_init 1 (None :: unit option)) (Some (complex128 [[1, 0], [1, 0]]))))
     = complex128 [[1, 0], [0, 0]]"
proof -
  have ok: "fst (set_initial_state eigvals_diagonal str_tolerance
       (density_init 1 (None :: unit option)) (Some (complex128 [[0, 0], [0, 1]]))) = Inr ()"
    unfolding set_initial_state_example_accepted by simp
  have bad: "fst (set_initial_state eigvals_diagonal str_tolerance
       (density_init 1 (None :: unit option)) (Some (complex128 [[1, 0], [1, 0]])))
       = Inl (Raise ValueError ''The state matrix is not Hermitian.'')"
    by (simp add: set_initial_state_def shape_def int_log2_def floor_log2.simps density_init_def
        is_valid_quantum_state_def allclose_def conjugate_def transpose_m_def isclose_def
        complex128_def default_rtol_def default_atol_def)
  show ?thesis
    using set_initial_state_preserves_density
            [of eigvals_diagonal str_tolerance "density_init 1 (None :: unit option)"
                "Some (complex128 [[0, 0], [0, 1]])"]
          set_initial_state_preserves_density
            [of eigvals_diagonal str_tolerance "density_init 1 (None :: unit option)"
                "Some (complex128 [[1, 0], [1, 0]])"]
          ok bad
    by (simp add: density_init_one_qubit)
qed

subsection \<open>Operations a simulator does not support\<close>

text \<open>
  C3, as the specification states it, has the two failures carry distinct error kinds.
  In the source both are raised with the class NotImplementedError: at a concrete call
  of each, the classes are not distinct.
\<close>

theorem unsupported_operations_same_class_counterexample:
  "\<not> (raised_class
         (fst (wavefunction_do_post_gate_noise (wavefunction_init 1 (None :: unit option))
                 ''bit_flip'' (1 / 10) [0]))
       \<noteq> raised_class
           (fst (density_expectation (density_init 1 (None :: unit option)) ())))"
  by (simp add: wavefunction_do_post_gate_noise_def density_expectation_def)

text \<open>
  C3, amended. For every input, \<open>do_post_gate_noise\<close> on the wavefunction simulator and
  \<open>expectation\<close> on the density-matrix simulator both fail and leave the simulator
  unchanged; both raise NotImplementedError, and the two failures differ in their
  messages only.
\<close>

theorem unsupported_operations_raise_NotImplementedError:
  "wavefunction_do_post_gate_noise self noise_type noise_prob qubits =
     (Inl (Raise NotImplementedError
        ''The reference wavefunction simulator cannot handle noise''), self)
   \<and> density_expectation dself operator =
       (Inl (Raise NotImplementedError ''To implement''), dself)
   \<and> raised_class (fst (wavefunction_do_post_gate_noise self noise_type noise_prob qubits))
       = Some NotImplementedError
   \<and> raised_class (fst (density_expectation dself operator)) = Some NotImplementedError
   \<and> raised_message (fst (wavefunction_do_post_gate_noise self noise_type noise_prob qubits))
       \<noteq> raised_message (fst (density_expectation dself operator))"
  by (simp add: wavefunction_do_post_gate_noise_def density_expectation_def)

subsection \<open>Sampling leaves the state alone\<close>

text \<open>
  C9. \<open>sample_bitstrings\<close> on either simulator changes nothing but the random state:
  the state vector (respectively the density matrix and the configured initial state)
  after the call is the one before it, whether the call returns or raises, so a second
  call computes the same probability vector as the first.
\<close>

theorem sample_bitstrings_does_not_mutate:
  "wf (snd (wavefunction_sample_bitstrings choice self n_samples)) = wf self
   \<and> n_qubits (snd (wavefunction_sample_bitstrings choice self n_samples)) = n_qubits self
   \<and> wavefunction_probabilities (snd (wavefunction_sample_bitstrings choice self n_samples))
       = wavefunction_probabilities self
   \<and> density (snd (density_sample_bitstrings dchoice dself n_samples tol_factor))
       = density dself
   \<and> initial_density (snd (density_sample_bitstrings dchoice dself n_samples tol_factor))
       = initial_density dself
   \<and> n_qubits (snd (density_sample_bitstrings dchoice dself n_samples tol_factor))
       = n_qubits dself
   \<and> density_probabilities (snd (density_sample_bitstrings dchoice dself n_samples tol_factor))
         tol_factor'
       = density_probabilities dself tol_factor'"
  unfolding wavefunction_sample_bitstrings_def density_sample_bitstrings_def
    wavefunction_probabilities_def density_probabilities_def
  by (simp add: Let_def split: option.splits prod.splits sum.splits)

theorem sample_bitstrings_does_not_mutate_witness:
  "wavefunction_sample_bitstrings choice_first (wavefunction_init 1 (Some 0)) 2
     = (Inr [[0], [0]], (wavefunction_init 1 (Some 0))\<lparr>rs := Some 1\<rparr>)
   \<and> wf (snd (wavefunction_sample_bitstrings choice_first (wavefunction_init 1 (Some 0)) 2))
     = [1, 0]
   \<and> density (snd (density_sample_bitstrings choice_first (density_init 1 (Some 0)) 2
        100000000)) = complex128 [[1, 0], [0, 0]]"
proof -
  have r: "wavefunction_sample_bitstrings choice_first (wavefunction_init 1 (Some 0)) 2
     = (Inr [[0], [0]], (wavefunction_init 1 (Some 0))\<lparr>rs := Some 1\<rparr>)"
    by (simp add: wavefunction_sample_bitstrings_def wavefunction_init_def choice_first_def
          take_rows_flipped_def all_bitstrings_def qubit_bit_def Let_def numeral_2_eq_2)
  show ?thesis
    using sample_bitstrings_does_not_mutate
            [of choice_first "wavefunction_init 1 (Some 0)" 2
                choice_first "density_init 1 (Some 0)" 100000000 100000000]
          r
    by (simp add: wavefunction_init_one_qubit density_init_one_qubit)
qed

subsection \<open>Noise with a probability close to zero, and unknown channels\<close>

lemma close_to_zero:
  "isclose (of_real p) 0 default_rtol default_atol \<longleftrightarrow> \<bar>p\<bar> \<le> default_atol"
  by (simp add: isclose_def)

text \<open>
  C8. For a channel name of the table and a probability that \<open>np.isclose\<close> cannot tell
  from zero (absolute value at most \<open>1e-08\<close>), \<open>do_post_gate_noise\<close> on the density-matrix
  simulator returns without raising, leaves the simulator unchanged and emits one
  warning.
\<close>

theorem density_do_post_gate_noise_zero_probability:
  assumes "KRAUS_OPS noise_type = Some channel" and "\<bar>noise_prob\<bar> \<le> default_atol"
  shows "density_do_post_gate_noise lift KRAUS_OPS self noise_type noise_prob qubits =
           (Inr (), self, [skip_warning noise_type])"
  using assms by (simp add: density_do_post_gate_noise_def close_to_zero)

theorem density_do_post_gate_noise_zero_probability_witness:
  "bit_flip_table ''bit_flip'' = Some bit_flip_operators
   \<and> \<bar>0 :: real\<bar> \<le> default_atol
   \<and> density_do_post_gate_noise lifted_gate_matrix bit_flip_table
        (density_init 1 (None :: unit option)) ''bit_flip'' 0 [0]
      = (Inr (), density_init 1 None,
         [''Skipping bit_flip post-gate noise because noise_prob is close to 0''])"
proof -
  have t: "bit_flip_table ''bit_flip'' = Some bit_flip_operators"
    by (simp add: bit_flip_table_def)
  have z: "\<bar>0 :: real\<bar> \<le> default_atol"
    by (simp add: default_atol_def)
  show ?thesis
    using density_do_post_gate_noise_zero_probability
            [where KRAUS_OPS = bit_flip_table and noise_type = "''bit_flip''"
               and channel = bit_flip_operators and noise_prob = 0
               and lift = lifted_gate_matrix
               and self = "density_init 1 (None :: unit option)" and qubits = "[0]"] t z
    by (simp add: skip_warning_def)
qed

text \<open>
  C10. The channel name is looked up in the table before the probability is compared
  with zero: for a name that is not in the table the call raises KeyError for every
  probability, zero included, and nothing is changed or emitted.
\<close>

theorem density_do_post_gate_noise_unknown_channel:
  assumes "KRAUS_OPS noise_type = None"
  shows "density_do_post_gate_noise lift KRAUS_OPS self noise_type noise_prob qubits =
           (Inl (Raise KeyError noise_type), self, [])"
  using assms by (simp add: density_do_post_gate_noise_def)

theorem density_do_post_gate_noise_unknown_channel_witness:
  "bit_flip_table ''no_such_channel'' = None
   \<and> density_do_post_gate_noise lifted_gate_matrix bit_flip_table
        (density_init 1 (None :: unit option)) ''no_such_channel'' 0 [0]
      = (Inl (Raise KeyError ''no_such_channel''), density_init 1 None, [])"
proof -
  have t: "bit_flip_table ''no_such_channel'' = None"
    by (simp add: bit_flip_table_def)
  show ?thesis
    using density_do_post_gate_noise_unknown_channel
            [where KRAUS_OPS = bit_flip_table and noise_type = "''no_such_channel''"
               and noise_prob = 0 and lift = lifted_gate_matrix
               and self = "density_init 1 (None :: unit option)" and qubits = "[0]"] t
    by simp
qed

subsection \<open>Products of arrays, index by index\<close>

lemma dot_vv_nth:
  assumes "length a = length b"
  shows "dot_vv a b = (\<Sum>i<length a. a ! i * b ! i)"
proof -
  have "dot_vv a b = (\<Sum>i = 0..<length a. map2 (*) a b ! i)"
    unfolding dot_vv_def using assms by (simp add: sum_list_sum_nth)
  also have "\<dots> = (\<Sum>i = 0..<length a. a ! i * b ! i)"
    using assms by (intro sum.cong) simp_all
  finally show ?thesis by (simp add: atLeast0LessThan)
qed

lemma dot_vv_map_upt:
  assumes "length v = k"
  shows "dot_vv (map f [0..<k]) v = (\<Sum>j<k. f j * v ! j)"
proof -
  have "dot_vv (map f [0..<k]) v = (\<Sum>j<k. map f [0..<k] ! j * v ! j)"
    using dot_vv_nth[of "map f [0..<k]" v] assms by simp
  also have "\<dots> = (\<Sum>j<k. f j * v ! j)"
    by (intro sum.cong) simp_all
  finally show ?thesis .
qed

lemma dot_vv_upt_map:
  assumes "length v = k"
  shows "dot_vv v (map f [0..<k]) = (\<Sum>j<k. v ! j * f j)"
proof -
  have "dot_vv v (map f [0..<k]) = (\<Sum>j<k. v ! j * map f [0..<k] ! j)"
    using dot_vv_nth[of v "map f [0..<k]"] assms by simp
  also have "\<dots> = (\<Sum>j<k. v ! j * f j)"
    by (intro sum.cong) simp_all
  finally show ?thesis .
qed

subsection \<open>The lifted projectors of one qubit\<close>

text \<open>
  Two basis indices below \<open>2 ^ n\<close> that agree on every qubit are equal, so lifting \<open>P0\<close>
  (respectively \<open>P1\<close>) to qubit \<open>q\<close> gives the diagonal matrix with a one exactly at the
  indices whose bit \<open>q\<close> is 0 (respectively 1): the projector onto the subspace where the
  measured qubit is zero (one).
\<close>

lemma qubit_bit_le_1: "qubit_bit q i = 0 \<or> qubit_bit q i = 1"
  unfolding qubit_bit_def by linarith

lemma qubit_bit_div2: "qubit_bit b (i div 2) = qubit_bit (Suc b) i"
  by (simp add: qubit_bit_def div_mult2_eq)

lemma bits_agree_eq:
  "i < 2 ^ n \<Longrightarrow> j < 2 ^ n \<Longrightarrow> (\<forall>b<n. qubit_bit b i = qubit_bit b j) \<Longrightarrow> i = j"
proof (induction n arbitrary: i j)
  case 0
  then show ?case by simp
next
  case (Suc n)
  have "i div 2 < 2 ^ n" "j div 2 < 2 ^ n" using Suc.prems by auto
  moreover have "\<forall>b<n. qubit_bit b (i div 2) = qubit_bit b (j div 2)"
    using Suc.prems(3) by (simp add: qubit_bit_div2)
  ultimately have d: "i div 2 = j div 2" by (rule Suc.IH)
  have "qubit_bit 0 i = qubit_bit 0 j" using Suc.prems(3) by simp
  then have m: "i mod 2 = j mod 2" by (simp add: qubit_bit_def)
  show ?case using d m by (metis div_mult_mod_eq)
qed

lemma agree_elsewhere_single:
  assumes "q < n" "i < 2 ^ n" "j < 2 ^ n"
  shows "agree_elsewhere [q] n i j \<and> qubit_bit q i = qubit_bit q j \<longleftrightarrow> i = j"
proof
  assume a: "agree_elsewhere [q] n i j \<and> qubit_bit q i = qubit_bit q j"
  then have "\<forall>b<n. qubit_bit b i = qubit_bit b j"
    by (auto simp: agree_elsewhere_def list_all_iff)
  with assms show "i = j" by (intro bits_agree_eq)
next
  assume "i = j"
  then show "agree_elsewhere [q] n i j \<and> qubit_bit q i = qubit_bit q j"
    by (simp add: agree_elsewhere_def list_all_iff)
qed

lemma sub_index_single: "sub_index [q] i = qubit_bit q i"
  by (simp add: sub_index_def)

lemma lifted_P0_entry:
  assumes "q < n" "i < 2 ^ n" "j < 2 ^ n"
  shows "(if agree_elsewhere [q] n i j then P0 ! sub_index [q] i ! sub_index [q] j else 0)
         = (if i = j \<and> qubit_bit q i = 0 then 1 else 0)"
  using agree_elsewhere_single[OF assms] qubit_bit_le_1[of q i] qubit_bit_le_1[of q j]
  by (auto simp: sub_index_single P0_def)

lemma lifted_P1_entry:
  assumes "q < n" "i < 2 ^ n" "j < 2 ^ n"
  shows "(if agree_elsewhere [q] n i j then P1 ! sub_index [q] i ! sub_index [q] j else 0)
         = (if i = j \<and> qubit_bit q i = 1 then 1 else 0)"
  using agree_elsewhere_single[OF assms] qubit_bit_le_1[of q i] qubit_bit_le_1[of q j]
  by (auto simp: sub_index_single P1_def)

lemma lifted_P0:
  assumes "q < n"
  shows "lifted_entries P0 [q] n = diagonal_projector (2 ^ n) (\<lambda>i. qubit_bit q i = 0)"
  unfolding lifted_entries_def diagonal_projector_def
  using assms by (simp add: lifted_P0_entry)

lemma lifted_P1:
  assumes "q < n"
  shows "lifted_entries P1 [q] n = diagonal_projector (2 ^ n) (\<lambda>i. qubit_bit q i = 1)"
  unfolding lifted_entries_def diagonal_projector_def
  using assms by (simp add: lifted_P1_entry)

lemma has_shape_diagonal_projector: "has_shape (diagonal_projector k c) k k"
  by (simp add: has_shape_def diagonal_projector_def list_all_iff)

lemma dot_mv_diagonal_projector:
  assumes "length v = k"
  shows "dot_mv (diagonal_projector k c) v = map (\<lambda>i. if c i then v ! i else 0) [0..<k]"
proof -
  have "dot_vv (map (\<lambda>j. if i = j \<and> c i then 1 else 0) [0..<k]) v = (if c i then v ! i else 0)"
    if "i < k" for i
  proof -
    have "dot_vv (map (\<lambda>j. if i = j \<and> c i then 1 else 0) [0..<k]) v
        = (\<Sum>j<k. (if i = j \<and> c i then 1 else 0) * v ! j)"
      by (rule dot_vv_map_upt[OF assms])
    also have "\<dots> = (\<Sum>j<k. if i = j then (if c i then v ! j else 0) else 0)"
      by (intro sum.cong) auto
    also have "\<dots> = (if c i then v ! i else 0)"
      using that by (simp add: sum.delta')
    finally show ?thesis .
  qed
  then show ?thesis
    by (simp add: dot_mv_def diagonal_projector_def)
qed


subsection \<open>Measurement on the wavefunction simulator\<close>

text \<open>
  \<open>measure_0 @ (np.eye(2 ** n) / s)\<close> is \<open>measure_0 / s\<close>, entry by entry.
\<close>

lemma shape_eye_scaled: "0 < k \<Longrightarrow> snd (shape (divide_scalar (eye k) s)) = k"
proof -
  assume "0 < k"
  then obtain k' where "k = Suc k'" by (cases k) auto
  then show ?thesis
    by (simp add: shape_def divide_scalar_def eye_def upt_rec[of 0] del: upt_Suc)
qed

lemma column_eye_scaled:
  "j < k \<Longrightarrow> column (divide_scalar (eye k) s) j = map (\<lambda>i. (if i = j then 1 else 0) / s) [0..<k]"
  by (simp add: column_def divide_scalar_def eye_def)

lemma dot_mm_eye_scaled:
  assumes "has_shape m k k" and "0 < k"
  shows "dot_mm m (divide_scalar (eye k) s) = divide_scalar m s"
proof -
  have row: "map (\<lambda>j. dot_vv r (column (divide_scalar (eye k) s) j)) [0..<k] = map (\<lambda>x. x / s) r"
    if "length r = k" for r
  proof (rule nth_equalityI)
    show "length (map (\<lambda>j. dot_vv r (column (divide_scalar (eye k) s) j)) [0..<k])
        = length (map (\<lambda>x. x / s) r)"
      using that by simp
  next
    fix j
    assume "j < length (map (\<lambda>j. dot_vv r (column (divide_scalar (eye k) s) j)) [0..<k])"
    then have j: "j < k" by simp
    have "dot_vv r (column (divide_scalar (eye k) s) j)
        = (\<Sum>i<k. r ! i * ((if i = j then 1 else 0) / s))"
      unfolding column_eye_scaled[OF j] by (rule dot_vv_upt_map[OF that])
    also have "\<dots> = (\<Sum>i<k. if i = j then r ! i / s else 0)"
      by (intro sum.cong) auto
    also have "\<dots> = r ! j / s"
      using j by (simp add: sum.delta)
    finally show "map (\<lambda>j. dot_vv r (column (divide_scalar (eye k) s) j)) [0..<k] ! j
        = map (\<lambda>x. x / s) r ! j"
      using j that by simp
  qed
  have "\<forall>r\<in>set m. length r = k"
    using assms(1) by (simp add: has_shape_def list_all_iff)
  then show ?thesis
    unfolding dot_mm_def shape_eye_scaled[OF assms(2)] divide_scalar_def[of m]
    by (simp add: row)
qed

lemma norm_sum_real:
  "(\<Sum>i<k. cnj (f i) * f i) = of_real (\<Sum>i<k. (cmod (f i))\<^sup>2)"
proof -
  have "cnj z * z = of_real ((cmod z)\<^sup>2)" for z
    using complex_norm_square[of z] by (simp add: mult.commute)
  then show ?thesis by simp
qed

lemma dot_vv_conj:
  assumes "length a = k" and "length b = k"
  shows "dot_vv (conj_v a) b = (\<Sum>i<k. cnj (a ! i) * b ! i)"
proof -
  have "dot_vv (conj_v a) b = (\<Sum>i<length (conj_v a). conj_v a ! i * b ! i)"
    by (rule dot_vv_nth) (simp add: conj_v_def assms)
  also have "\<dots> = (\<Sum>i<k. cnj (a ! i) * b ! i)"
    using assms by (intro sum.cong) (simp_all add: conj_v_def)
  finally show ?thesis .
qed

lemma projected_norm:
  assumes "length v = k"
  shows "dot_vv (conj_v (dot_mv (diagonal_projector k c) v)) (dot_mv (diagonal_projector k c) v)
           = bra_ket v (diagonal_projector k c)"
    and "Im (bra_ket v (diagonal_projector k c)) = 0"
    and "0 \<le> Re (bra_ket v (diagonal_projector k c))"
proof -
  define w where "w = map (\<lambda>i. if c i then v ! i else 0) [0..<k]"
  have lw: "length w = k" by (simp add: w_def)
  have wi: "w ! i = (if c i then v ! i else 0)" if "i < k" for i
    using that by (simp add: w_def)
  have pv: "dot_mv (diagonal_projector k c) v = w"
    unfolding w_def by (rule dot_mv_diagonal_projector[OF assms])
  have l: "dot_vv (conj_v w) w = (\<Sum>i<k. cnj (w ! i) * w ! i)"
    by (rule dot_vv_conj[OF lw lw])
  have r: "dot_vv (conj_v v) w = (\<Sum>i<k. cnj (v ! i) * w ! i)"
    by (rule dot_vv_conj[OF assms lw])
  have e: "(\<Sum>i<k. cnj (w ! i) * w ! i) = (\<Sum>i<k. cnj (v ! i) * w ! i)"
    by (intro sum.cong) (simp_all add: wi)
  show 1: "dot_vv (conj_v (dot_mv (diagonal_projector k c) v)) (dot_mv (diagonal_projector k c) v)
           = bra_ket v (diagonal_projector k c)"
    unfolding bra_ket_def pv l r e ..
  have "bra_ket v (diagonal_projector k c) = of_real (\<Sum>i<k. (cmod (w ! i))\<^sup>2)"
    unfolding 1[symmetric] pv l by (rule norm_sum_real)
  then show "Im (bra_ket v (diagonal_projector k c)) = 0"
    and "0 \<le> Re (bra_ket v (diagonal_projector k c))"
    by (simp_all add: sum_nonneg)
qed

lemma complex_less_real:
  "Im p = 0 \<Longrightarrow> complex_less (of_real u) p \<longleftrightarrow> u < Re p"
  by (simp add: complex_less_def)

lemma entries_lifted_gate_matrix:
  "entries (lifted_gate_matrix m qubit_inds n) = lifted_entries m qubit_inds n"
  by (simp add: lifted_gate_matrix_def complex128_def)

text \<open>
  Applying a diagonal projector divided by a scalar keeps the amplitudes it selects,
  divided by the scalar.
\<close>

lemma dot_mv_scaled_projector:
  assumes "length v = k"
  shows "dot_mv (divide_scalar (diagonal_projector k c) s) v
           = map (\<lambda>i. if c i then v ! i / s else 0) [0..<k]"
proof -
  have "dot_vv (map (\<lambda>j. (if i = j \<and> c i then 1 else 0) / s) [0..<k]) v
          = (if c i then v ! i / s else 0)"
    if "i < k" for i
  proof -
    have "dot_vv (map (\<lambda>j. (if i = j \<and> c i then 1 else 0) / s) [0..<k]) v
        = (\<Sum>j<k. (if i = j \<and> c i then 1 else 0) / s * v ! j)"
      by (rule dot_vv_map_upt[OF assms])
    also have "\<dots> = (\<Sum>j<k. if i = j then (if c i then v ! j / s else 0) else 0)"
      by (intro sum.cong) auto
    also have "\<dots> = (if c i then v ! i / s else 0)"
      using that by (simp add: sum.delta')
    finally show ?thesis .
  qed
  then show ?thesis
    by (simp add: dot_mv_def diagonal_projector_def divide_scalar_def comp_def)
qed

lemma projected_norm_sum:
  assumes "length v = k"
  shows "bra_ket v (diagonal_projector k c)
           = of_real (\<Sum>i\<leftarrow>[0..<k]. if c i then (cmod (v ! i))\<^sup>2 else 0)"
proof -
  define w where "w = map (\<lambda>i. if c i then v ! i else 0) [0..<k]"
  have lw: "length w = k" by (simp add: w_def)
  have wi: "w ! i = (if c i then v ! i else 0)" if "i < k" for i
    using that by (simp add: w_def)
  have pv: "dot_mv (diagonal_projector k c) v = w"
    unfolding w_def by (rule dot_mv_diagonal_projector[OF assms])
  have "bra_ket v (diagonal_projector k c) = dot_vv (conj_v w) w"
    using projected_norm(1)[OF assms, of c] by (simp add: pv)
  also have "\<dots> = (\<Sum>i<k. cnj (w ! i) * w ! i)"
    by (rule dot_vv_conj[OF lw lw])
  also have "\<dots> = of_real (\<Sum>i<k. (cmod (w ! i))\<^sup>2)"
    by (rule norm_sum_real)
  also have "(\<Sum>i<k. (cmod (w ! i))\<^sup>2) = (\<Sum>i<k. if c i then (cmod (v ! i))\<^sup>2 else 0)"
    by (intro sum.cong) (simp_all add: wi)
  also have "\<dots> = (\<Sum>i\<leftarrow>[0..<k]. if c i then (cmod (v ! i))\<^sup>2 else 0)"
    by (simp add: interv_sum_list_conv_sum_set_nat atLeast0LessThan)
  finally show ?thesis .
qed

lemma born_prob_zero_nonneg: "0 \<le> born_prob_zero \<psi> q"
  unfolding born_prob_zero_def by (rule sum_list_nonneg) auto

text \<open>
  C2. With a random state present, a state vector of length \<open>2 ^ n\<close> and a qubit of the
  simulator, \<open>do_measurement\<close> draws \<open>u\<close> and computes \<open>prob_zero\<close>, the sum of the squared
  moduli of the amplitudes at the basis indices where the measured qubit is zero, which
  is \<open><psi|P0|psi>\<close> for the lifted projector. If \<open>u\<close> is below \<open>prob_zero\<close> it returns 0
  and the new state vector has, at each of those indices, the old amplitude divided by
  \<open>sqrt(prob_zero)\<close>, and zero elsewhere. Otherwise it returns 1 and the new state vector
  has, at each index where the measured qubit is one, the old amplitude divided by
  \<open>sqrt(1 - prob_zero)\<close>, and zero elsewhere. For a draw in \<open>[0, 1)\<close> the square root that
  the taken branch divides by is not zero.
\<close>

theorem wavefunction_do_measurement_born_rule:
  assumes "rs self = Some r" and "uniform r = (u, r')"
    and "length (wf self) = 2 ^ n_qubits self" and "qubit < n_qubits self"
  shows "wavefunction_do_measurement lifted_gate_matrix uniform self qubit =
     (if u < born_prob_zero (wf self) qubit then
        (Inr 0,
         self\<lparr>rs := Some r',
              wf := collapsed (wf self) qubit 0
                      (csqrt (of_real (born_prob_zero (wf self) qubit)))\<rparr>)
      else
        (Inr 1,
         self\<lparr>rs := Some r',
              wf := collapsed (wf self) qubit 1
                      (csqrt (1 - of_real (born_prob_zero (wf self) qubit)))\<rparr>))
   \<and> bra_ket (wf self) (entries (lifted_gate_matrix P0 [qubit] (n_qubits self)))
       = of_real (born_prob_zero (wf self) qubit)
   \<and> (0 \<le> u \<and> u < 1 \<longrightarrow>
        (if u < born_prob_zero (wf self) qubit
         then csqrt (of_real (born_prob_zero (wf self) qubit)) \<noteq> 0
         else csqrt (1 - of_real (born_prob_zero (wf self) qubit)) \<noteq> 0))"
proof -
  let ?k = "2 ^ n_qubits self :: nat"
  let ?c0 = "\<lambda>i. qubit_bit qubit i = 0"
  let ?c1 = "\<lambda>i. qubit_bit qubit i = 1"
  let ?M0 = "entries (lifted_gate_matrix P0 [qubit] (n_qubits self))"
  let ?M1 = "entries (lifted_gate_matrix P1 [qubit] (n_qubits self))"
  let ?p = "born_prob_zero (wf self) qubit"
  have k: "0 < ?k" by simp
  have m0: "?M0 = diagonal_projector ?k ?c0"
    by (simp add: entries_lifted_gate_matrix lifted_P0[OF assms(4)])
  have m1: "?M1 = diagonal_projector ?k ?c1"
    by (simp add: entries_lifted_gate_matrix lifted_P1[OF assms(4)])
  have s0: "has_shape ?M0 ?k ?k" unfolding m0 by (rule has_shape_diagonal_projector)
  have s1: "has_shape ?M1 ?k ?k" unfolding m1 by (rule has_shape_diagonal_projector)
  have b: "bra_ket (wf self) ?M0 = of_real ?p"
    unfolding m0 projected_norm_sum[OF assms(3)]
    by (simp add: born_prob_zero_def assms(3) qubit_bit_def)
  have p: "dot_vv (conj_v (dot_mv ?M0 (wf self))) (dot_mv ?M0 (wf self)) = of_real ?p"
    unfolding b[symmetric] m0 by (rule projected_norm(1)[OF assms(3)])
  have c: "complex_less (of_real u) (of_real ?p) \<longleftrightarrow> u < ?p"
    by (simp add: complex_less_def)
  have w0: "dot_mv (divide_scalar ?M0 s) (wf self) = collapsed (wf self) qubit 0 s" for s
    unfolding m0 dot_mv_scaled_projector[OF assms(3)]
    by (simp add: collapsed_def assms(3) qubit_bit_def)
  have w1: "dot_mv (divide_scalar ?M1 s) (wf self) = collapsed (wf self) qubit 1 s" for s
    unfolding m1 dot_mv_scaled_projector[OF assms(3)]
    by (simp add: collapsed_def assms(3) qubit_bit_def)
  have main: "wavefunction_do_measurement lifted_gate_matrix uniform self qubit =
     (if u < ?p then
        (Inr 0, self\<lparr>rs := Some r', wf := collapsed (wf self) qubit 0 (csqrt (of_real ?p))\<rparr>)
      else
        (Inr 1, self\<lparr>rs := Some r',
                     wf := collapsed (wf self) qubit 1 (csqrt (1 - of_real ?p))\<rparr>))"
    unfolding wavefunction_do_measurement_def Let_def p
      dot_mm_eye_scaled[OF s0 k] dot_mm_eye_scaled[OF s1 k] w0 w1
    using assms(1,2) by (simp add: c)
  have nz0: "csqrt (of_real ?p) \<noteq> 0" if "0 \<le> u" "u < ?p"
    using that by auto
  have nz1: "csqrt (1 - of_real ?p) \<noteq> 0" if "u < 1" "\<not> u < ?p"
  proof -
    have "0 < Re (1 - complex_of_real ?p)" using that by simp
    then have "1 - complex_of_real ?p \<noteq> 0" by auto
    then show ?thesis by simp
  qed
  show ?thesis using main b nz0 nz1 by simp
qed

text \<open>
  On one qubit, in the superposition with amplitudes \<open>3/5\<close> and \<open>4i/5\<close>, the probability
  of 0 is \<open>9/25\<close>: a draw of \<open>1/4\<close> gives 0 and the state \<open>(1, 0)\<close>, a draw of \<open>1/2\<close> gives 1
  and the state \<open>(0, i)\<close>. On two qubits, in the state with amplitudes \<open>9/25\<close>, \<open>12/25\<close>,
  \<open>12/25\<close>, \<open>16/25\<close>, measuring qubit 1 with a draw of \<open>1/4\<close> gives 0 and keeps the first
  two amplitudes, divided by \<open>3/5\<close>.
\<close>

lemma sqrt_9_25: "sqrt (9 / 25) = 3 / 5"
  by (rule real_sqrt_unique) (simp_all add: power2_eq_square)

lemma sqrt_16_25: "sqrt (16 / 25) = 4 / 5"
  by (rule real_sqrt_unique) (simp_all add: power2_eq_square)

lemma csqrt_9_25: "csqrt (9 / 25) = 3 / 5"
proof -
  have "csqrt (complex_of_real (9 / 25)) = complex_of_real (sqrt (9 / 25))"
    by (rule of_real_sqrt[symmetric]) simp
  then show ?thesis by (simp add: sqrt_9_25)
qed

lemma csqrt_16_25: "csqrt (16 / 25) = 4 / 5"
proof -
  have "csqrt (complex_of_real (16 / 25)) = complex_of_real (sqrt (16 / 25))"
    by (rule of_real_sqrt[symmetric]) simp
  then show ?thesis by (simp add: sqrt_16_25)
qed

lemma born_prob_zero_one_qubit: "born_prob_zero [3 / 5, 4 * \<i> / 5] 0 = 9 / 25"
  by (simp add: born_prob_zero_def upt_rec[of 0] upt_rec[of 1] norm_divide norm_mult
        power2_eq_square)

lemma born_prob_zero_two_qubits:
  "born_prob_zero [9 / 25, 12 / 25, 12 / 25, 16 / 25] (Suc 0) = 9 / 25"
  by (simp add: born_prob_zero_def upt_rec[of 0] upt_rec[of 1] upt_rec[of 2] upt_rec[of 3]
        norm_divide power2_eq_square)

theorem wavefunction_do_measurement_born_rule_witness:
  "wavefunction_do_measurement lifted_gate_matrix replay_uniform
       \<lparr> n_qubits = 1, rs = Some [1 / 4], wf = [3 / 5, 4 * \<i> / 5] \<rparr> 0
     = (Inr 0, \<lparr> n_qubits = 1, rs = Some [], wf = [1, 0] \<rparr>)
   \<and> wavefunction_do_measurement lifted_gate_matrix replay_uniform
       \<lparr> n_qubits = 1, rs = Some [1 / 2], wf = [3 / 5, 4 * \<i> / 5] \<rparr> 0
     = (Inr 1, \<lparr> n_qubits = 1, rs = Some [], wf = [0, \<i>] \<rparr>)
   \<and> wavefunction_do_measurement lifted_gate_matrix replay_uniform
       \<lparr> n_qubits = 2, rs = Some [1 / 4], wf = [9 / 25, 12 / 25, 12 / 25, 16 / 25] \<rparr> 1
     = (Inr 0, \<lparr> n_qubits = 2, rs = Some [], wf = [3 / 5, 4 / 5, 0, 0] \<rparr>)"
proof -
  have u4: "replay_uniform [1 / 4] = (1 / 4, [])" and u2: "replay_uniform [1 / 2] = (1 / 2, [])"
    by (simp_all add: replay_uniform_def)
  have c0: "collapsed [3 / 5, 4 * \<i> / 5] 0 0 (3 / 5) = [1, 0]"
    by (simp add: collapsed_def upt_rec[of 0] upt_rec[of 1])
  have c1: "collapsed [3 / 5, 4 * \<i> / 5] 0 (Suc 0) (4 / 5) = [0, \<i>]"
    by (simp add: collapsed_def upt_rec[of 0] upt_rec[of 1])
  have c2: "collapsed [9 / 25, 12 / 25, 12 / 25, 16 / 25] (Suc 0) 0 (3 / 5) = [3 / 5, 4 / 5, 0, 0]"
    by (simp add: collapsed_def upt_rec[of 0] upt_rec[of 1] upt_rec[of 2] upt_rec[of 3])
  have d: "1 - (9 / 25 :: complex) = 16 / 25" by simp
  show ?thesis
    using wavefunction_do_measurement_born_rule
            [where self = "\<lparr> n_qubits = 1, rs = Some [1 / 4], wf = [3 / 5, 4 * \<i> / 5] \<rparr>"
               and r = "[1 / 4]" and uniform = replay_uniform and u = "1 / 4" and r' = "[]"
               and qubit = 0]
          wavefunction_do_measurement_born_rule
            [where self = "\<lparr> n_qubits = 1, rs = Some [1 / 2], wf = [3 / 5, 4 * \<i> / 5] \<rparr>"
               and r = "[1 / 2]" and uniform = replay_uniform and u = "1 / 2" and r' = "[]"
               and qubit = 0]
          wavefunction_do_measurement_born_rule
            [where self = "\<lparr> n_qubits = 2, rs = Some [1 / 4],
                             wf = [9 / 25, 12 / 25, 12 / 25, 16 / 25] \<rparr>"
               and r = "[1 / 4]" and uniform = replay_uniform and u = "1 / 4" and r' = "[]"
               and qubit = 1]
    by (simp add: u4 u2 born_prob_zero_one_qubit born_prob_zero_two_qubits
          csqrt_9_25 csqrt_16_25 d c0 c1 c2)
qed

subsection \<open>Noise on the density-matrix simulator\<close>









































text \<open>
  A state whose element type is not complex128 is reached through \<open>set_initial_state\<close>
  and \<open>reset\<close>, which store the array they are given. On such a state, with a lifted
  operator of element type complex128, the first addition in place raises and the
  density matrix stays as it was: the method does not apply the channel there.
\<close>

lemma density_do_post_gate_noise_raises:
  assumes "KRAUS_OPS noise_type = Some channel" and "\<not> \<bar>noise_prob\<bar> \<le> default_atol"
    and "channel noise_prob = kraus_op # kraus_ops" and "qubits = q # qs"
    and "dtype (density self) \<noteq> Complex128"
    and "dtype (lift kraus_op [q] (n_qubits self)) = Complex128"
  shows "density_do_post_gate_noise lift KRAUS_OPS self noise_type noise_prob qubits =
           (Inl (Raise UFuncTypeError (cast_message Complex128 (dtype (density self)))),
            self, [])"
proof -
  let ?summand = "nd_dot (nd_dot (lift kraus_op [q] (n_qubits self)) (density self))
                 (nd_conj_transpose (lift kraus_op [q] (n_qubits self)))"
  have r: "kind_rank (dtype (density self)) < 2"
    using assms(5) by (cases "dtype (density self)") simp_all
  have dt: "dtype ?summand = Complex128"
    using assms(6) r
    by (simp add: nd_dot_def nd_conj_transpose_def result_type_def)
  have "iadd (nd_zeros_like (density self)) ?summand
      = Inl (Raise UFuncTypeError (cast_message Complex128 (dtype (density self))))"
    using r by (simp add: iadd_def dt can_cast_same_kind_def nd_zeros_like_def)
  then have "qubit_loop lift (n_qubits self) (channel noise_prob) (density self) qubits
      = (Inl (Raise UFuncTypeError (cast_message Complex128 (dtype (density self)))),
         density self)"
    by (simp add: assms(3,4) Let_def)
  then show ?thesis
    using assms(1,2) by (simp add: density_do_post_gate_noise_def close_to_zero)
qed

lemma density_do_post_gate_noise_float64_state:
  "density_do_post_gate_noise lifted_gate_matrix bit_flip_table
     (density_reset
        (snd (set_initial_state eigvals_diagonal str_tolerance
                (density_init 1 (None :: unit option)) (Some (float64 [[0, 0], [0, 1]])))))
     ''bit_flip'' (1 / 2) [0]
   = (Inl (Raise UFuncTypeError (cast_message Complex128 Float64)),
      \<lparr> n_qubits = 1, rs = None, initial_density = float64 [[0, 0], [0, 1]],
        density = float64 [[0, 0], [0, 1]] \<rparr>,
      [])"
proof -
  have s: "set_initial_state eigvals_diagonal str_tolerance
             (density_init 1 (None :: unit option)) (Some (float64 [[0, 0], [0, 1]]))
         = (Inr (), (density_init 1 None)\<lparr>initial_density := float64 [[0, 0], [0, 1]]\<rparr>)"
    by (simp add: set_initial_state_def shape_def int_log2_def floor_log2.simps density_init_def
        is_valid_quantum_state_def allclose_def conjugate_def transpose_m_def isclose_def
        float64_def trace_def default_rtol_def default_atol_def eigvals_diagonal_def
        complex_less_def upt_rec)
  let ?self = "\<lparr> n_qubits = 1, rs = (None :: unit option),
                 initial_density = float64 [[0, 0], [0, 1]],
                 density = float64 [[0, 0], [0, 1]] \<rparr>"
  have r: "density_reset
        (snd (set_initial_state eigvals_diagonal str_tolerance
                (density_init 1 (None :: unit option)) (Some (float64 [[0, 0], [0, 1]]))))
        = ?self"
    unfolding s by (simp add: density_reset_def density_init_one_qubit)
  have "density_do_post_gate_noise lifted_gate_matrix bit_flip_table ?self
          ''bit_flip'' (1 / 2) [0]
      = (Inl (Raise UFuncTypeError (cast_message Complex128 (dtype (density ?self)))),
         ?self, [])"
    by (rule density_do_post_gate_noise_raises
               [where channel = bit_flip_operators
                  and kraus_op = "[[of_real (sqrt (1 - 1 / 2)), 0], [0, of_real (sqrt (1 - 1 / 2))]]"
                  and kraus_ops = "[[[0, of_real (sqrt (1 / 2))], [of_real (sqrt (1 / 2)), 0]]]"
                  and q = 0 and qs = "[]"])
       (simp_all add: bit_flip_table_def default_atol_def bit_flip_operators_def float64_def
          lifted_gate_matrix_def complex128_def)
  then show ?thesis
    unfolding r by (simp add: float64_def)
qed

subsection \<open>Unitary gates keep the norm\<close>














end
